theory Spec2Isabelle
  imports Complex_Main "HOL-Library.Char_ord" "HOL-Library.List_Lexorder"
begin

section \<open>Values of the dashboard script\<close>

text \<open>
  The script \<^verbatim>\<open>jahr5.py\<close> is a straight-line program over a pandas data frame. The
  embedding keeps its variables and its order of statements. Three conventions hold
  throughout.

  \<^item> A timestamp (\<^verbatim>\<open>datetime64\<close>, read with \<^verbatim>\<open>unit="ms"\<close>) is the integer number of
    milliseconds since 1970-01-01T00:00; no time zone is attached, as in the source.
  \<^item> A calendar date (\<^verbatim>\<open>datetime.date\<close>) is the integer number of days since 1970-01-01.
    Comparing two dates is comparing these numbers.
  \<^item> A float is an exact real number or the missing value: \<open>None\<close> stands for pandas'
    \<^verbatim>\<open>NaN\<close>. Rounding and infinities are outside the model.

  What pandas does (boolean indexing, \<^verbatim>\<open>resample\<close>, \<^verbatim>\<open>groupby\<close>, \<^verbatim>\<open>reindex\<close>, the
  reductions \<^verbatim>\<open>mean\<close>, \<^verbatim>\<open>min\<close>, \<^verbatim>\<open>max\<close>) is written out as list functions that follow the
  library's documented behaviour for the calls the script makes.
\<close>

datatype error = FileNotFoundError | KeyError string | ValueError

text \<open>
  The three labels of the radio button \<^verbatim>\<open>agg_mode\<close>: hourly, daily, monthly (the umlauts of
  the first two written \<open>ue\<close> and \<open>ae\<close>).
\<close>

datatype agg_mode = Stuendlich | Taeglich | Monatlich

text \<open>One element of the \<^verbatim>\<open>"data"\<close> array of the input file.\<close>

record json_record =
  start_timestamp :: int
  end_timestamp :: int
  marketprice :: "real option"

text \<open>One row of \<^verbatim>\<open>df\<close> after \<^verbatim>\<open>load_data\<close>: the three columns read plus the derived one.\<close>

record row = json_record +
  price_ct_kwh :: "real option"

text \<open>
  The data frame \<^verbatim>\<open>df\<close>. The columns \<^verbatim>\<open>hour\<close> and \<^verbatim>\<open>weekday\<close> do not exist after
  loading (\<open>None\<close>); the analysis tab assigns them.
\<close>

record frame =
  rows :: "row list"
  hour :: "int list option"
  weekday :: "string list option"

text \<open>
  The variable \<^verbatim>\<open>filtered_df\<close> holds the filtered rows with all their columns, or, after
  \<^verbatim>\<open>resample(...).mean().reset_index()\<close>, a two-column frame of bucket label and mean.
\<close>

datatype view = Records "row list" | Buckets "(int \<times> real option) list"

fun col_start_timestamp :: "view \<Rightarrow> int list" where
  "col_start_timestamp (Records rs) = map start_timestamp rs"
| "col_start_timestamp (Buckets bs) = map fst bs"

fun col_price_ct_kwh :: "view \<Rightarrow> real option list" where
  "col_price_ct_kwh (Records rs) = map price_ct_kwh rs"
| "col_price_ct_kwh (Buckets bs) = map snd bs"

section \<open>Calendar\<close>

text \<open>
  The proleptic Gregorian calendar of \<^verbatim>\<open>datetime64\<close>, by the usual era arithmetic
  (an era is 400 years, 146097 days, and starts on 1 March).
\<close>

definition days_from_civil :: "int \<Rightarrow> int \<Rightarrow> int \<Rightarrow> int" where
  "days_from_civil y m d =
     (let y' = (if m \<le> 2 then y - 1 else y);
          era = y' div 400;
          yoe = y' - era * 400;
          mp = (if m > 2 then m - 3 else m + 9);
          doy = (153 * mp + 2) div 5 + d - 1;
          doe = yoe * 365 + yoe div 4 - yoe div 100 + doy
      in era * 146097 + doe - 719468)"

definition civil_from_days :: "int \<Rightarrow> int \<times> int \<times> int" where
  "civil_from_days z0 =
     (let z = z0 + 719468;
          era = z div 146097;
          doe = z - era * 146097;
          yoe = (doe - doe div 1460 + doe div 36524 - doe div 146096) div 365;
          doy = doe - (365 * yoe + yoe div 4 - yoe div 100);
          mp = (5 * doy + 2) div 153;
          d = doy - (153 * mp + 2) div 5 + 1;
          m = (if mp < 10 then mp + 3 else mp - 9);
          y = yoe + era * 400
      in (if m \<le> 2 then y + 1 else y, m, d))"

definition ms_per_day :: int where
  "ms_per_day = 86400000"

text \<open>\<^verbatim>\<open>Series.dt.date\<close>, \<^verbatim>\<open>Series.dt.hour\<close> and \<^verbatim>\<open>Series.dt.day_name()\<close> on one timestamp.\<close>

definition dt_date :: "int \<Rightarrow> int" where
  "dt_date ts = ts div ms_per_day"

definition dt_hour :: "int \<Rightarrow> int" where
  "dt_hour ts = (ts div 3600000) mod 24"

definition day_names :: "string list" where
  "day_names = [''Monday'', ''Tuesday'', ''Wednesday'', ''Thursday'', ''Friday'',
                ''Saturday'', ''Sunday'']"

text \<open>1970-01-01 was a Thursday, index 3 counting from Monday.\<close>

definition dt_dayofweek :: "int \<Rightarrow> int" where
  "dt_dayofweek ts = (dt_date ts + 3) mod 7"

definition dt_day_name :: "int \<Rightarrow> string" where
  "dt_day_name ts = day_names ! nat (dt_dayofweek ts)"

text \<open>Midnight of a day, as a timestamp.\<close>

definition midnight :: "int \<Rightarrow> int" where
  "midnight d = d * ms_per_day"

text \<open>
  Calendar months are numbered consecutively, \<open>12 * year + (month - 1)\<close>.
  \<open>month_start k\<close> and \<open>month_end k\<close> are the first and the last day of month \<open>k\<close>.
\<close>

definition month_of_day :: "int \<Rightarrow> int" where
  "month_of_day d = (case civil_from_days d of (y, m, _) \<Rightarrow> 12 * y + (m - 1))"

definition month_start :: "int \<Rightarrow> int" where
  "month_start k = days_from_civil (k div 12) (k mod 12 + 1) 1"

definition month_end :: "int \<Rightarrow> int" where
  "month_end k = month_start (k + 1) - 1"

section \<open>Reductions that skip missing values\<close>

text \<open>
  \<^verbatim>\<open>Series.mean()\<close>, \<^verbatim>\<open>Series.min()\<close> and \<^verbatim>\<open>Series.max()\<close> with the default
  \<^verbatim>\<open>skipna=True\<close>: missing entries are dropped first, and the result over nothing is
  \<^verbatim>\<open>NaN\<close>; none of them raises.
\<close>

definition dropna :: "real option list \<Rightarrow> real list" where
  "dropna xs = List.map_filter id xs"

definition series_mean :: "real option list \<Rightarrow> real option" where
  "series_mean xs =
     (let vs = dropna xs in if vs = [] then None else Some (sum_list vs / real (length vs)))"

definition series_min :: "real option list \<Rightarrow> real option" where
  "series_min xs = (let vs = dropna xs in if vs = [] then None else Some (Min (set vs)))"

definition series_max :: "real option list \<Rightarrow> real option" where
  "series_max xs = (let vs = dropna xs in if vs = [] then None else Some (Max (set vs)))"

section \<open>Loading\<close>

text \<open>
  \<^verbatim>\<open>load_data\<close>, lines 20-27. The argument is the \<^verbatim>\<open>"data"\<close> array of the file, or \<open>None\<close>
  when the file does not exist. An empty array gives a frame without columns, and the
  first column access raises \<^verbatim>\<open>KeyError\<close>.
\<close>

definition load_row :: "json_record \<Rightarrow> row" where
  "load_row j = \<lparr> start_timestamp = start_timestamp j, end_timestamp = end_timestamp j,
                  marketprice = marketprice j,
                  price_ct_kwh = map_option (\<lambda>p. p / 10) (marketprice j) \<rparr>"

definition load_data :: "json_record list option \<Rightarrow> error + frame" where
  "load_data file =
     (case file of
        None \<Rightarrow> Inl FileNotFoundError
      | Some data \<Rightarrow>
          if data = [] then Inl (KeyError ''start_timestamp'')
          else Inr \<lparr> rows = map load_row data, hour = None, weekday = None \<rparr>)"

section \<open>Filtering and aggregation\<close>

text \<open>
  Lines 74-77: the boolean mask over \<^verbatim>\<open>df\<close> and the selection \<^verbatim>\<open>df[mask].copy()\<close>, which
  keeps the rows whose mask entry is true, in their order. \<open>in_range\<close> is the condition of
  lines 75-76 on one row.
\<close>

definition in_range :: "int \<Rightarrow> int \<Rightarrow> row \<Rightarrow> bool" where
  "in_range start_date end_date r \<longleftrightarrow>
     dt_date (start_timestamp r) \<ge> start_date \<and> dt_date (start_timestamp r) \<le> end_date"

definition date_mask :: "frame \<Rightarrow> int \<Rightarrow> int \<Rightarrow> bool list" where
  "date_mask df start_date end_date = map (in_range start_date end_date) (rows df)"

definition select_rows :: "row list \<Rightarrow> bool list \<Rightarrow> row list" where
  "select_rows rs keep = map fst (filter snd (zip rs keep))"

definition filter_step :: "frame \<Rightarrow> int \<Rightarrow> int \<Rightarrow> row list" where
  "filter_step df start_date end_date = select_rows (rows df) (date_mask df start_date end_date)"

text \<open>
  The two frequencies the script resamples with. \<open>bucket\<close> maps a timestamp to the number of
  the bin that holds it and \<open>label\<close> a bin to the timestamp that names it in the result.
  Rule \<^verbatim>\<open>"D"\<close>: calendar days, closed and labelled on the left, so a bin is named by its
  midnight. Rule \<^verbatim>\<open>"M"\<close>: month end frequency, closed and labelled on the right, so a bin
  holds one calendar month and is named by the midnight of the month's last day. This is
  how pandas reads the alias \<^verbatim>\<open>"M"\<close> wherever it accepts it.
\<close>

datatype rule = D | M

fun bucket :: "rule \<Rightarrow> int \<Rightarrow> int" where
  "bucket D ts = dt_date ts"
| "bucket M ts = month_of_day (dt_date ts)"

fun label :: "rule \<Rightarrow> int \<Rightarrow> int" where
  "label D d = midnight d"
| "label M k = midnight (month_end k)"

text \<open>
  \<^verbatim>\<open>resample(rule, on="start_timestamp")["price_ct_kwh"].mean().reset_index()\<close>.
  An empty frame has no bins. Otherwise the bins run from the bin of the smallest
  timestamp to the bin of the largest one without a gap, whether rows fall into them or
  not. Each bin's value is the mean of the prices that fall into it.
\<close>

definition bins :: "rule \<Rightarrow> row list \<Rightarrow> int list" where
  "bins rl rs =
     (if rs = [] then []
      else let ks = map (\<lambda>r. bucket rl (start_timestamp r)) rs
           in [Min (set ks)..Max (set ks)])"

definition bin_mean :: "rule \<Rightarrow> row list \<Rightarrow> int \<Rightarrow> real option" where
  "bin_mean rl rs k =
     series_mean (map price_ct_kwh (filter (\<lambda>r. bucket rl (start_timestamp r) = k) rs))"

definition resample_mean :: "rule \<Rightarrow> row list \<Rightarrow> (int \<times> real option) list" where
  "resample_mean rl rs = map (\<lambda>k. (label rl k, bin_mean rl rs k)) (bins rl rs)"

text \<open>Lines 79-86: the branch on \<^verbatim>\<open>agg_mode\<close>; the hourly view is left as filtered.\<close>

definition aggregate_step :: "agg_mode \<Rightarrow> row list \<Rightarrow> view" where
  "aggregate_step mode rs =
     (case mode of
        Taeglich \<Rightarrow> Buckets (resample_mean D rs)
      | Monatlich \<Rightarrow> Buckets (resample_mean M rs)
      | Stuendlich \<Rightarrow> Records rs)"

section \<open>Statistics\<close>

text \<open>Lines 92-94: \<^verbatim>\<open>avg_price\<close>, \<^verbatim>\<open>min_price\<close>, \<^verbatim>\<open>max_price\<close> of the price column.\<close>

definition statistics :: "view \<Rightarrow> real option \<times> real option \<times> real option" where
  "statistics v =
     (let c = col_price_ct_kwh v in (series_mean c, series_min c, series_max c))"

section \<open>Pattern analysis\<close>

text \<open>
  \<^verbatim>\<open>groupby(key)["price_ct_kwh"].mean()\<close>: one group per distinct key, keys ascending,
  each with the mean of its prices.
\<close>

definition groupby_mean :: "('k::linorder \<times> real option) list \<Rightarrow> ('k \<times> real option) list" where
  "groupby_mean kvs =
     map (\<lambda>k. (k, series_mean (map snd (filter (\<lambda>kv. fst kv = k) kvs))))
       (sort (remdups (map fst kvs)))"

text \<open>\<^verbatim>\<open>reindex(labels)\<close>: one entry per label, in the order given; a label without a group is \<^verbatim>\<open>NaN\<close>.\<close>

definition reindex :: "'k list \<Rightarrow> ('k \<times> real option) list \<Rightarrow> ('k \<times> real option) list" where
  "reindex labels s =
     map (\<lambda>l. (l, case map_of s l of None \<Rightarrow> None | Some v \<Rightarrow> v)) labels"

text \<open>Lines 165-166: the two column assignments, which change \<^verbatim>\<open>df\<close> itself.\<close>

definition assign_hour :: "frame \<Rightarrow> frame" where
  "assign_hour df = df \<lparr> hour := Some (map (\<lambda>r. dt_hour (start_timestamp r)) (rows df)) \<rparr>"

definition assign_weekday :: "frame \<Rightarrow> frame" where
  "assign_weekday df =
     df \<lparr> weekday := Some (map (\<lambda>r. dt_day_name (start_timestamp r)) (rows df)) \<rparr>"

definition analysis_columns :: "frame \<Rightarrow> frame" where
  "analysis_columns df = assign_weekday (assign_hour df)"

text \<open>Lines 168-171; grouping by a column that does not exist raises \<^verbatim>\<open>KeyError\<close>.\<close>

definition avg_by_hour_of :: "frame \<Rightarrow> error + (int \<times> real option) list" where
  "avg_by_hour_of df =
     (case hour df of
        None \<Rightarrow> Inl (KeyError ''hour'')
      | Some hs \<Rightarrow> Inr (groupby_mean (zip hs (map price_ct_kwh (rows df)))))"

definition avg_by_day_of :: "frame \<Rightarrow> error + (string \<times> real option) list" where
  "avg_by_day_of df =
     (case weekday df of
        None \<Rightarrow> Inl (KeyError ''weekday'')
      | Some ws \<Rightarrow> Inr (reindex day_names (groupby_mean (zip ws (map price_ct_kwh (rows df))))))"

section \<open>The script\<close>

text \<open>The variables the script has assigned when it ends.\<close>

record run =
  df :: frame
  filtered_df :: view
  avg_price :: "real option"
  min_price :: "real option"
  max_price :: "real option"
  avg_by_hour :: "(int \<times> real option) list"
  avg_by_day :: "(string \<times> real option) list"

text \<open>
  Line 73, \<^verbatim>\<open>start_date, end_date = date_range\<close>: the date widget returns a tuple, and
  unpacking anything but two values raises \<^verbatim>\<open>ValueError\<close>.
\<close>

definition unpack_range :: "int list \<Rightarrow> error + int \<times> int" where
  "unpack_range date_range =
     (case date_range of [s, e] \<Rightarrow> Inr (s, e) | _ \<Rightarrow> Inl ValueError)"

text \<open>
  One execution of the script from top to bottom: load, unpack the range, filter,
  aggregate, statistics, then the analysis tab, which assigns the two columns to
  \<^verbatim>\<open>df\<close> and groups over \<^verbatim>\<open>df\<close>. \<open>df0\<close> is \<^verbatim>\<open>df\<close> as loaded and \<open>df2\<close> is \<^verbatim>\<open>df\<close> after the
  assignments.
\<close>

definition script :: "json_record list option \<Rightarrow> int list \<Rightarrow> agg_mode \<Rightarrow> error + run" where
  "script file date_range mode =
     (case load_data file of
        Inl e \<Rightarrow> Inl e
      | Inr df0 \<Rightarrow>
     (case unpack_range date_range of
        Inl e \<Rightarrow> Inl e
      | Inr (start_date, end_date) \<Rightarrow>
     (let filtered = aggregate_step mode (filter_step df0 start_date end_date);
          (avg, mn, mx) = statistics filtered;
          df2 = analysis_columns df0
      in
     (case avg_by_hour_of df2 of
        Inl e \<Rightarrow> Inl e
      | Inr by_hour \<Rightarrow>
     (case avg_by_day_of df2 of
        Inl e \<Rightarrow> Inl e
      | Inr by_day \<Rightarrow>
          Inr \<lparr> df = df2, filtered_df = filtered, avg_price = avg, min_price = mn,
                max_price = mx, avg_by_hour = by_hour, avg_by_day = by_day \<rparr>)))))"

section \<open>Reference inputs and derived forms\<close>

text \<open>
  The two hourly records of the specification's scenario: 2024-01-01T00:00 at 400 EUR/MWh
  and 2024-01-01T01:00 at 200 EUR/MWh.
\<close>

definition scenario :: "json_record list" where
  "scenario =
     [\<lparr> start_timestamp = 1704067200000, end_timestamp = 1704070800000, marketprice = Some 400 \<rparr>,
      \<lparr> start_timestamp = 1704070800000, end_timestamp = 1704074400000, marketprice = Some 200 \<rparr>]"

text \<open>
  The same two prices two days apart, 2024-01-01T00:00 and 2024-01-03T00:00: no record
  falls on 2024-01-02.
\<close>

definition gap_data :: "json_record list" where
  "gap_data =
     [\<lparr> start_timestamp = 1704067200000, end_timestamp = 1704070800000, marketprice = Some 400 \<rparr>,
      \<lparr> start_timestamp = 1704240000000, end_timestamp = 1704243600000, marketprice = Some 200 \<rparr>]"

text \<open>
  What lines 165-171 compute, as functions of the rows of \<^verbatim>\<open>df\<close>: the grouped means by hour
  and by weekday name.
\<close>

definition hourly_pattern :: "row list \<Rightarrow> (int \<times> real option) list" where
  "hourly_pattern rs =
     groupby_mean (zip (map (\<lambda>r. dt_hour (start_timestamp r)) rs) (map price_ct_kwh rs))"

definition weekday_pattern :: "row list \<Rightarrow> (string \<times> real option) list" where
  "weekday_pattern rs =
     reindex day_names
       (groupby_mean (zip (map (\<lambda>r. dt_day_name (start_timestamp r)) rs) (map price_ct_kwh rs)))"

text \<open>
  The series as the specification words it, for comparison with \<open>resample_mean\<close>: one entry
  per bin that has at least one contributing record, and none for an empty bin.
\<close>

definition populated :: "rule \<Rightarrow> row list \<Rightarrow> int \<Rightarrow> bool" where
  "populated rl rs k \<longleftrightarrow> (\<exists>r \<in> set rs. bucket rl (start_timestamp r) = k)"

definition spec_sparse_series :: "rule \<Rightarrow> row list \<Rightarrow> (int \<times> real option) list" where
  "spec_sparse_series rl rs =
     map (\<lambda>k. (label rl k, bin_mean rl rs k)) (filter (populated rl rs) (bins rl rs))"


section \<open>Basic facts\<close>

lemma select_rows_map: "select_rows rs (map P rs) = filter P rs"
  by (induction rs) (simp_all add: select_rows_def)

lemma filter_step_filter: "filter_step d s e = filter (in_range s e) (rows d)"
  by (simp add: filter_step_def date_mask_def select_rows_map)

lemma load_data_Some:
  "data \<noteq> [] \<Longrightarrow>
     load_data (Some data) = Inr \<lparr> rows = map load_row data, hour = None, weekday = None \<rparr>"
  by (simp add: load_data_def)

lemma load_data_Inr:
  "load_data file = Inr d \<Longrightarrow>
     \<exists>data. file = Some data \<and> data \<noteq> [] \<and>
            d = \<lparr> rows = map load_row data, hour = None, weekday = None \<rparr>"
  by (auto simp: load_data_def split: option.splits if_splits)

lemma unpack_range_Inr: "unpack_range dr = Inr (s, e) \<longleftrightarrow> dr = [s, e]"
  by (auto simp: unpack_range_def split: list.splits)

lemma rows_analysis_columns: "rows (analysis_columns d) = rows d"
  by (simp add: analysis_columns_def assign_weekday_def assign_hour_def)

lemma hour_analysis_columns:
  "hour (analysis_columns d) = Some (map (\<lambda>r. dt_hour (start_timestamp r)) (rows d))"
  by (simp add: analysis_columns_def assign_weekday_def assign_hour_def)

lemma weekday_analysis_columns:
  "weekday (analysis_columns d) = Some (map (\<lambda>r. dt_day_name (start_timestamp r)) (rows d))"
  by (simp add: analysis_columns_def assign_weekday_def assign_hour_def)

lemma avg_by_hour_analysis: "avg_by_hour_of (analysis_columns d) = Inr (hourly_pattern (rows d))"
  by (simp add: avg_by_hour_of_def hour_analysis_columns rows_analysis_columns hourly_pattern_def)

lemma avg_by_day_analysis: "avg_by_day_of (analysis_columns d) = Inr (weekday_pattern (rows d))"
  by (simp add: avg_by_day_of_def weekday_analysis_columns rows_analysis_columns
                weekday_pattern_def)

text \<open>A run on a loaded frame and a two-date range ends normally, with these values.\<close>

lemma script_Inr:
  assumes "load_data file = Inr d"
  shows "script file [s, e] mode =
     Inr \<lparr> df = analysis_columns d,
           filtered_df = aggregate_step mode (filter_step d s e),
           avg_price = fst (statistics (aggregate_step mode (filter_step d s e))),
           min_price = fst (snd (statistics (aggregate_step mode (filter_step d s e)))),
           max_price = snd (snd (statistics (aggregate_step mode (filter_step d s e)))),
           avg_by_hour = hourly_pattern (rows d),
           avg_by_day = weekday_pattern (rows d) \<rparr>"
  using assms
  by (simp add: script_def unpack_range_def Let_def avg_by_hour_analysis avg_by_day_analysis
           split: prod.splits)

lemma script_Inr_cases:
  assumes "script file dr mode = Inr r"
  obtains d s e where "load_data file = Inr d" "dr = [s, e]"
proof -
  from assms obtain d where d: "load_data file = Inr d"
    by (cases "load_data file") (simp_all add: script_def)
  from assms d obtain p where "unpack_range dr = Inr p"
    by (cases "unpack_range dr") (simp_all add: script_def)
  then have "dr = [fst p, snd p]"
    by (cases p) (simp add: unpack_range_Inr)
  with d that show thesis by blast
qed

subsection \<open>Reductions\<close>

lemma dropna_Nil [simp]: "dropna [] = []"
  by (simp add: dropna_def List.map_filter_def)

lemma dropna_Cons_None [simp]: "dropna (None # xs) = dropna xs"
  by (simp add: dropna_def List.map_filter_def)

lemma dropna_Cons_Some [simp]: "dropna (Some x # xs) = x # dropna xs"
  by (simp add: dropna_def List.map_filter_def)

lemma series_mean_Nil: "series_mean [] = None"
  by (simp add: series_mean_def)

lemma statistics_dropna:
  "dropna (col_price_ct_kwh v) = dropna (col_price_ct_kwh w) \<Longrightarrow> statistics v = statistics w"
  by (simp add: statistics_def series_mean_def series_min_def series_max_def Let_def)

lemma dropna_map_filter:
  assumes "\<And>k. k \<in> set ks \<Longrightarrow> \<not> P k \<Longrightarrow> g k = None"
  shows "dropna (map g (filter P ks)) = dropna (map g ks)"
  using assms
proof (induction ks)
  case Nil
  show ?case by simp
next
  case (Cons k ks)
  show ?case
  proof (cases "P k")
    case True
    with Cons show ?thesis by (cases "g k") simp_all
  next
    case False
    with Cons.prems have "g k = None" by simp
    with False Cons show ?thesis by simp
  qed
qed

subsection \<open>Bins\<close>

lemma bins_Nil: "bins rl [] = []"
  by (simp add: bins_def)

lemma bins_upto:
  "rs \<noteq> [] \<Longrightarrow>
     bins rl rs = [Min ((\<lambda>r. bucket rl (start_timestamp r)) ` set rs) ..
                   Max ((\<lambda>r. bucket rl (start_timestamp r)) ` set rs)]"
  by (simp add: bins_def)

lemma bucket_in_bins:
  assumes "r \<in> set rs"
  shows "bucket rl (start_timestamp r) \<in> set (bins rl rs)"
proof -
  let ?K = "(\<lambda>r. bucket rl (start_timestamp r)) ` set rs"
  from assms have ne: "rs \<noteq> []" by auto
  have "finite ?K" by simp
  moreover from assms have "bucket rl (start_timestamp r) \<in> ?K" by blast
  ultimately have "Min ?K \<le> bucket rl (start_timestamp r)" "bucket rl (start_timestamp r) \<le> Max ?K"
    by simp_all
  with ne show ?thesis by (simp add: bins_upto)
qed

lemma bin_mean_empty: "\<not> populated rl rs k \<Longrightarrow> bin_mean rl rs k = None"
proof -
  assume "\<not> populated rl rs k"
  then have "filter (\<lambda>r. bucket rl (start_timestamp r) = k) rs = []"
    by (auto simp: populated_def filter_empty_conv)
  then show ?thesis by (simp add: bin_mean_def series_mean_Nil)
qed

lemma keys_resample_mean: "map fst (resample_mean rl rs) = map (label rl) (bins rl rs)"
  by (simp add: resample_mean_def comp_def)

lemma values_resample_mean: "map snd (resample_mean rl rs) = map (bin_mean rl rs) (bins rl rs)"
  by (simp add: resample_mean_def comp_def)

lemma values_spec_sparse_series:
  "map snd (spec_sparse_series rl rs) = map (bin_mean rl rs) (filter (populated rl rs) (bins rl rs))"
  by (simp add: spec_sparse_series_def comp_def)

lemma dropna_resample_sparse:
  "dropna (map snd (spec_sparse_series rl rs)) = dropna (map snd (resample_mean rl rs))"
  by (simp add: values_resample_mean values_spec_sparse_series dropna_map_filter bin_mean_empty)

section \<open>Values on the reference inputs\<close>

lemma civil_days:
  "days_from_civil 2024 1 1 = 19723" "days_from_civil 2024 1 2 = 19724"
  "days_from_civil 2024 1 3 = 19725" "days_from_civil 2024 1 31 = 19753"
  by (simp_all add: days_from_civil_def)

lemma dt_date_values:
  "dt_date 1704067200000 = 19723" "dt_date 1704070800000 = 19723"
  "dt_date 1704240000000 = 19725"
  by (simp_all add: dt_date_def ms_per_day_def)

lemma midnight_values:
  "midnight 19723 = 1704067200000" "midnight 19724 = 1704153600000"
  "midnight 19725 = 1704240000000" "midnight 19753 = 1706659200000"
  by (simp_all add: midnight_def ms_per_day_def)

lemma month_of_day_values: "month_of_day 19723 = 24288" "month_of_day 19725 = 24288"
  unfolding month_of_day_def civil_from_days_def Let_def by simp_all

lemma month_end_values: "month_end 24288 = 19753"
  by (simp add: month_end_def month_start_def days_from_civil_def)

lemma dt_hour_values:
  "dt_hour 1704067200000 = 0" "dt_hour 1704070800000 = 1" "dt_hour 1704240000000 = 0"
  by (simp_all add: dt_hour_def)

lemma dt_day_name_values:
  "dt_day_name 1704067200000 = ''Monday''" "dt_day_name 1704070800000 = ''Monday''"
  "dt_day_name 1704240000000 = ''Wednesday''"
  by (simp_all add: dt_day_name_def dt_dayofweek_def dt_date_values day_names_def)

lemma rows_scenario:
  "map load_row scenario =
     [\<lparr> start_timestamp = 1704067200000, end_timestamp = 1704070800000,
        marketprice = Some 400, price_ct_kwh = Some 40 \<rparr>,
      \<lparr> start_timestamp = 1704070800000, end_timestamp = 1704074400000,
        marketprice = Some 200, price_ct_kwh = Some 20 \<rparr>]"
  by (simp add: scenario_def load_row_def)

lemma rows_gap_data:
  "map load_row gap_data =
     [\<lparr> start_timestamp = 1704067200000, end_timestamp = 1704070800000,
        marketprice = Some 400, price_ct_kwh = Some 40 \<rparr>,
      \<lparr> start_timestamp = 1704240000000, end_timestamp = 1704243600000,
        marketprice = Some 200, price_ct_kwh = Some 20 \<rparr>]"
  by (simp add: gap_data_def load_row_def)

lemma load_scenario:
  "load_data (Some scenario) =
     Inr \<lparr> rows = map load_row scenario, hour = None, weekday = None \<rparr>"
  by (simp add: load_data_def scenario_def)

lemma load_gap_data:
  "load_data (Some gap_data) =
     Inr \<lparr> rows = map load_row gap_data, hour = None, weekday = None \<rparr>"
  by (simp add: load_data_def gap_data_def)

lemma filter_scenario:
  "filter_step \<lparr> rows = map load_row scenario, hour = None, weekday = None \<rparr> 19723 19723 =
     map load_row scenario"
  by (simp add: filter_step_filter in_range_def rows_scenario dt_date_values)

lemma filter_gap_data:
  "filter_step \<lparr> rows = map load_row gap_data, hour = None, weekday = None \<rparr> 19723 19725 =
     map load_row gap_data"
  by (simp add: filter_step_filter in_range_def rows_gap_data dt_date_values)

lemma filter_gap_data_empty:
  "filter_step \<lparr> rows = map load_row gap_data, hour = None, weekday = None \<rparr> 19724 19724 = []"
  by (simp add: filter_step_filter in_range_def rows_gap_data dt_date_values)

lemma resample_D_scenario:
  "resample_mean D (map load_row scenario) = [(1704067200000, Some 30)]"
  by (simp add: resample_mean_def bins_def bin_mean_def rows_scenario dt_date_values
                midnight_values series_mean_def)

lemma resample_M_scenario:
  "resample_mean M (map load_row scenario) = [(1706659200000, Some 30)]"
  by (simp add: resample_mean_def bins_def bin_mean_def rows_scenario dt_date_values
                month_of_day_values month_end_values midnight_values series_mean_def)

lemma resample_D_gap_data:
  "resample_mean D (map load_row gap_data) =
     [(1704067200000, Some 40), (1704153600000, None), (1704240000000, Some 20)]"
  by (simp add: resample_mean_def bins_def bin_mean_def rows_gap_data dt_date_values
                midnight_values series_mean_def)

section \<open>Filter and hourly view\<close>

text \<open>
  Claim C5. The filter step retains exactly the records whose calendar date lies between
  \<open>start_date\<close> and \<open>end_date\<close>, both inclusive: the result is the sublist of the rows of
  \<^verbatim>\<open>df\<close> that satisfy the condition, in their order and with their multiplicity; every
  retained record is in range, and every record in range is retained. This holds for
  every pair of dates, in particular for \<open>start_date \<le> end_date\<close>.
\<close>

theorem filter_step_exactly_in_range:
  "filter_step d start_date end_date =
     filter (\<lambda>r. start_date \<le> dt_date (start_timestamp r) \<and>
                 dt_date (start_timestamp r) \<le> end_date) (rows d)
   \<and> (\<forall>r \<in> set (filter_step d start_date end_date).
         r \<in> set (rows d) \<and>
         start_date \<le> dt_date (start_timestamp r) \<and> dt_date (start_timestamp r) \<le> end_date)
   \<and> (\<forall>r \<in> set (rows d).
         start_date \<le> dt_date (start_timestamp r) \<and> dt_date (start_timestamp r) \<le> end_date
         \<longrightarrow> r \<in> set (filter_step d start_date end_date))"
proof -
  have "in_range start_date end_date =
          (\<lambda>r. start_date \<le> dt_date (start_timestamp r) \<and> dt_date (start_timestamp r) \<le> end_date)"
    by (rule ext) (simp add: in_range_def)
  then have eq: "filter_step d start_date end_date =
     filter (\<lambda>r. start_date \<le> dt_date (start_timestamp r) \<and>
                 dt_date (start_timestamp r) \<le> end_date) (rows d)"
    by (simp add: filter_step_filter)
  show ?thesis
    unfolding eq by simp
qed

theorem filter_step_exactly_in_range_witness:
  "filter_step \<lparr> rows = map load_row gap_data, hour = None, weekday = None \<rparr> 19724 19725 =
     [\<lparr> start_timestamp = 1704240000000, end_timestamp = 1704243600000,
        marketprice = Some 200, price_ct_kwh = Some 20 \<rparr>]"
  using filter_step_exactly_in_range
          [of "\<lparr> rows = map load_row gap_data, hour = None, weekday = None \<rparr>" 19724 19725]
  by (simp add: rows_gap_data dt_date_values)

text \<open>
  Claim C4. In hourly mode (\<open>Stuendlich\<close>) the run ends normally and \<^verbatim>\<open>filtered_df\<close> is the
  filtered records themselves, one entry per retained record with its own timestamp and
  price, in the order of the dataset. On the two-record scenario, filtered for 2024-01-01
  to 2024-01-01, the prices are 40 and 20 in that order.
\<close>

theorem hourly_mode_passes_records_through:
  "(load_data file = Inr d \<longrightarrow>
      (\<exists>r. script file [start_date, end_date] Stuendlich = Inr r \<and>
           filtered_df r = Records (filter_step d start_date end_date) \<and>
           col_start_timestamp (filtered_df r) =
             map start_timestamp (filter (in_range start_date end_date) (rows d)) \<and>
           col_price_ct_kwh (filtered_df r) =
             map price_ct_kwh (filter (in_range start_date end_date) (rows d))))
   \<and> map_sum id (col_price_ct_kwh \<circ> filtered_df)
         (script (Some scenario) [days_from_civil 2024 1 1, days_from_civil 2024 1 1] Stuendlich)
       = Inr [Some 40, Some 20]"
proof (intro conjI impI)
  assume "load_data file = Inr d"
  from script_Inr [OF this, of start_date end_date Stuendlich]
  show "\<exists>r. script file [start_date, end_date] Stuendlich = Inr r \<and>
           filtered_df r = Records (filter_step d start_date end_date) \<and>
           col_start_timestamp (filtered_df r) =
             map start_timestamp (filter (in_range start_date end_date) (rows d)) \<and>
           col_price_ct_kwh (filtered_df r) =
             map price_ct_kwh (filter (in_range start_date end_date) (rows d))"
    by (simp add: aggregate_step_def filter_step_filter)
next
  have "map_sum id (col_price_ct_kwh \<circ> filtered_df)
          (script (Some scenario) [19723, 19723] Stuendlich)
        = Inr (col_price_ct_kwh (Records (map load_row scenario)))"
    by (simp add: script_Inr [OF load_scenario] filter_scenario aggregate_step_def)
  also have "col_price_ct_kwh (Records (map load_row scenario)) = [Some 40, Some 20]"
    by (simp add: rows_scenario)
  finally show "map_sum id (col_price_ct_kwh \<circ> filtered_df)
         (script (Some scenario) [days_from_civil 2024 1 1, days_from_civil 2024 1 1] Stuendlich)
       = Inr [Some 40, Some 20]"
    by (simp only: civil_days)
qed

theorem hourly_mode_passes_records_through_witness:
  "load_data (Some gap_data) =
     Inr \<lparr> rows = map load_row gap_data, hour = None, weekday = None \<rparr>
   \<and> (\<exists>r. script (Some gap_data) [19723, 19725] Stuendlich = Inr r \<and>
           col_start_timestamp (filtered_df r) = [1704067200000, 1704240000000] \<and>
           col_price_ct_kwh (filtered_df r) = [Some 40, Some 20])"
  using hourly_mode_passes_records_through
          [of "Some gap_data" "\<lparr> rows = map load_row gap_data, hour = None, weekday = None \<rparr>"
              19723 19725]
  by (auto simp: load_gap_data rows_gap_data in_range_def dt_date_values)

section \<open>Daily scenario\<close>

text \<open>
  Claim C3. The two records of the scenario start at 2024-01-01T00:00 and 2024-01-01T01:00
  with market prices 400 and 200 EUR/MWh. Filtered with \<open>start_date = end_date = 2024-01-01\<close>
  in daily mode (\<open>Taeglich\<close>), the run ends normally and \<^verbatim>\<open>filtered_df\<close> has exactly one
  bucket, named by the midnight of 2024-01-01, whose mean price is 30 ct/kWh.
\<close>

theorem daily_scenario_one_bucket_30:
  "map start_timestamp scenario =
     [midnight (days_from_civil 2024 1 1), midnight (days_from_civil 2024 1 1) + 3600000]
   \<and> map marketprice scenario = [Some 400, Some 200]
   \<and> map_sum id filtered_df
         (script (Some scenario) [days_from_civil 2024 1 1, days_from_civil 2024 1 1] Taeglich)
       = Inr (Buckets [(midnight (days_from_civil 2024 1 1), Some 30)])"
proof (intro conjI)
  show "map start_timestamp scenario =
     [midnight (days_from_civil 2024 1 1), midnight (days_from_civil 2024 1 1) + 3600000]"
    by (simp add: scenario_def civil_days midnight_values)
  show "map marketprice scenario = [Some 400, Some 200]"
    by (simp add: scenario_def)
  have "aggregate_step Taeglich (map load_row scenario) = Buckets [(1704067200000, Some 30)]"
    by (simp add: aggregate_step_def resample_D_scenario)
  then show "map_sum id filtered_df
         (script (Some scenario) [days_from_civil 2024 1 1, days_from_civil 2024 1 1] Taeglich)
       = Inr (Buckets [(midnight (days_from_civil 2024 1 1), Some 30)])"
    by (simp add: script_Inr [OF load_scenario] civil_days filter_scenario midnight_values)
qed

section \<open>Statistics\<close>

text \<open>
  Claim C9. The statistics of an empty series are all three undefined: \<^verbatim>\<open>avg_price\<close>,
  \<^verbatim>\<open>min_price\<close> and \<^verbatim>\<open>max_price\<close> are \<^verbatim>\<open>NaN\<close> (\<open>None\<close>), not zero, and nothing is raised. A
  run in which no record falls into the selected range ends normally in every mode, with
  an empty \<^verbatim>\<open>filtered_df\<close> and the three statistics undefined.
\<close>

theorem statistics_of_empty_series_undefined:
  "(col_price_ct_kwh v = [] \<longrightarrow> statistics v = (None, None, None))
   \<and> (load_data file = Inr d \<and> filter_step d start_date end_date = [] \<longrightarrow>
        (\<exists>r. script file [start_date, end_date] mode = Inr r \<and>
             col_price_ct_kwh (filtered_df r) = [] \<and>
             avg_price r = None \<and> min_price r = None \<and> max_price r = None))"
proof (intro conjI impI)
  assume "col_price_ct_kwh v = []"
  then show "statistics v = (None, None, None)"
    by (simp add: statistics_def series_mean_def series_min_def series_max_def)
next
  assume a: "load_data file = Inr d \<and> filter_step d start_date end_date = []"
  have "col_price_ct_kwh (aggregate_step mode []) = []"
    by (cases mode) (simp_all add: aggregate_step_def resample_mean_def bins_Nil)
  then have "statistics (aggregate_step mode []) = (None, None, None)"
    by (simp add: statistics_def series_mean_def series_min_def series_max_def)
  with a \<open>col_price_ct_kwh (aggregate_step mode []) = []\<close>
  show "\<exists>r. script file [start_date, end_date] mode = Inr r \<and>
             col_price_ct_kwh (filtered_df r) = [] \<and>
             avg_price r = None \<and> min_price r = None \<and> max_price r = None"
    by (simp add: script_Inr)
qed

theorem statistics_of_empty_series_undefined_witness:
  "col_price_ct_kwh (Buckets []) = []
   \<and> statistics (Buckets []) = (None, None, None)
   \<and> load_data (Some gap_data) =
       Inr \<lparr> rows = map load_row gap_data, hour = None, weekday = None \<rparr>
   \<and> filter_step \<lparr> rows = map load_row gap_data, hour = None, weekday = None \<rparr>
         (days_from_civil 2024 1 2) (days_from_civil 2024 1 2) = []
   \<and> (\<exists>r. script (Some gap_data) [days_from_civil 2024 1 2, days_from_civil 2024 1 2] Taeglich
             = Inr r \<and>
           filtered_df r = Buckets [] \<and>
           avg_price r = None \<and> min_price r = None \<and> max_price r = None)"
proof -
  have e: "filter_step \<lparr> rows = map load_row gap_data, hour = None, weekday = None \<rparr>
         (days_from_civil 2024 1 2) (days_from_civil 2024 1 2) = []"
    by (simp add: civil_days filter_gap_data_empty)
  have b: "aggregate_step Taeglich [] = Buckets []"
    by (simp add: aggregate_step_def resample_mean_def bins_Nil)
  from statistics_of_empty_series_undefined
         [of "Buckets []" "Some gap_data"
             "\<lparr> rows = map load_row gap_data, hour = None, weekday = None \<rparr>"
             "days_from_civil 2024 1 2" "days_from_civil 2024 1 2" Taeglich]
  show ?thesis
    using e b by (auto simp: load_gap_data script_Inr)
qed


text \<open>
  Claim C10. The statistics ignore undefined entries. In daily and monthly mode the
  statistics of \<^verbatim>\<open>filtered_df\<close>, which may hold buckets with an undefined mean, equal the
  statistics of the subsequence of buckets that have at least one contributing record
  (\<open>spec_sparse_series\<close>). More generally, dropping the undefined entries of any series does
  not change its statistics.
\<close>

theorem statistics_ignore_undefined_buckets:
  "statistics (aggregate_step Taeglich rs) = statistics (Buckets (spec_sparse_series D rs))
   \<and> statistics (aggregate_step Monatlich rs) = statistics (Buckets (spec_sparse_series M rs))
   \<and> statistics (Buckets bs) = statistics (Buckets (filter (\<lambda>b. snd b \<noteq> None) bs))"
proof (intro conjI)
  show "statistics (aggregate_step Taeglich rs) = statistics (Buckets (spec_sparse_series D rs))"
    by (rule statistics_dropna) (simp add: aggregate_step_def dropna_resample_sparse)
  show "statistics (aggregate_step Monatlich rs) = statistics (Buckets (spec_sparse_series M rs))"
    by (rule statistics_dropna) (simp add: aggregate_step_def dropna_resample_sparse)
  have "dropna (map snd (filter (\<lambda>b. snd b \<noteq> None) bs)) = dropna (map snd bs)"
    by (rule dropna_map_filter) simp
  then show "statistics (Buckets bs) = statistics (Buckets (filter (\<lambda>b. snd b \<noteq> None) bs))"
    by (intro statistics_dropna) simp
qed

lemma spec_sparse_D_gap_data:
  "spec_sparse_series D (map load_row gap_data) =
     [(1704067200000, Some 40), (1704240000000, Some 20)]"
  by (simp add: spec_sparse_series_def populated_def bins_def bin_mean_def rows_gap_data
                dt_date_values midnight_values series_mean_def)

theorem statistics_ignore_undefined_buckets_witness:
  "statistics (Buckets [(1704067200000, Some 40), (1704153600000, None),
                        (1704240000000, Some 20)])
     = statistics (Buckets [(1704067200000, Some 40), (1704240000000, Some 20)])
   \<and> statistics (Buckets [(1704067200000, Some 40), (1704240000000, Some 20)])
     = (Some 30, Some 20, Some 40)"
proof -
  have "statistics (Buckets [(1704067200000, Some 40), (1704240000000, Some 20)])
          = (Some 30, Some 20, Some 40)"
    by (simp add: statistics_def series_mean_def series_min_def series_max_def)
  with statistics_ignore_undefined_buckets [of "map load_row gap_data"]
  show ?thesis
    by (simp add: aggregate_step_def resample_D_gap_data spec_sparse_D_gap_data)
qed

section \<open>Pattern analysis\<close>

text \<open>
  Claim C8. The grouped means by hour and by weekday of two runs over the same file are
  the same whatever date ranges and aggregation modes the two runs were given: both are
  computed from all the rows of the loaded dataset.
\<close>

theorem patterns_do_not_depend_on_filter:
  assumes "script file range1 mode1 = Inr r1" and "script file range2 mode2 = Inr r2"
  shows "avg_by_hour r1 = avg_by_hour r2 \<and> avg_by_day r1 = avg_by_day r2
         \<and> (\<forall>d. load_data file = Inr d \<longrightarrow>
                avg_by_hour r1 = hourly_pattern (rows d) \<and>
                avg_by_day r1 = weekday_pattern (rows d))"
proof -
  from assms(1) obtain d s1 e1 where d: "load_data file = Inr d" and 1: "range1 = [s1, e1]"
    by (rule script_Inr_cases)
  from assms(2) obtain d' s2 e2 where "load_data file = Inr d'" and 2: "range2 = [s2, e2]"
    by (rule script_Inr_cases)
  from assms(1) 1 have "avg_by_hour r1 = hourly_pattern (rows d)"
    "avg_by_day r1 = weekday_pattern (rows d)"
    by (auto simp: script_Inr [OF d])
  moreover from assms(2) 2 have "avg_by_hour r2 = hourly_pattern (rows d)"
    "avg_by_day r2 = weekday_pattern (rows d)"
    by (auto simp: script_Inr [OF d])
  ultimately show ?thesis
    using d by simp
qed

theorem patterns_do_not_depend_on_filter_witness:
  "\<exists>r1 r2. script (Some gap_data) [19723, 19725] Taeglich = Inr r1 \<and>
           script (Some gap_data) [19724, 19724] Stuendlich = Inr r2 \<and>
           filtered_df r1 \<noteq> filtered_df r2 \<and>
           avg_by_hour r1 = avg_by_hour r2 \<and> avg_by_day r1 = avg_by_day r2"
proof -
  obtain r1 where 1: "script (Some gap_data) [19723, 19725] Taeglich = Inr r1"
    by (simp add: script_Inr [OF load_gap_data])
  obtain r2 where 2: "script (Some gap_data) [19724, 19724] Stuendlich = Inr r2"
    by (simp add: script_Inr [OF load_gap_data])
  from 1 have "filtered_df r1 = Buckets (resample_mean D (map load_row gap_data))"
    by (auto simp: script_Inr [OF load_gap_data] filter_gap_data aggregate_step_def)
  moreover from 2 have "filtered_df r2 = Records []"
    by (auto simp: script_Inr [OF load_gap_data] filter_gap_data_empty aggregate_step_def)
  ultimately have "filtered_df r1 \<noteq> filtered_df r2"
    by simp
  with 1 2 patterns_do_not_depend_on_filter [OF 1 2] show ?thesis
    by blast
qed

subsection \<open>Grouped means\<close>

lemma snd_filter_zip_map:
  "map snd (filter (\<lambda>kv. fst kv = k) (zip (map f xs) (map g xs))) =
     map g (filter (\<lambda>x. f x = k) xs)"
  by (induction xs) simp_all

lemma keys_groupby_mean: "set (map fst (groupby_mean kvs)) = fst ` set kvs"
  by (simp add: groupby_mean_def comp_def)

lemma lookup_groupby_mean:
  "(case map_of (groupby_mean kvs) k of None \<Rightarrow> None | Some v \<Rightarrow> v) =
     series_mean (map snd (filter (\<lambda>kv. fst kv = k) kvs))"
proof (cases "k \<in> fst ` set kvs")
  case True
  then have "map_of (groupby_mean kvs) k =
               Some (series_mean (map snd (filter (\<lambda>kv. fst kv = k) kvs)))"
    by (simp add: groupby_mean_def map_of_map_restrict)
  then show ?thesis by simp
next
  case False
  then have "filter (\<lambda>kv. fst kv = k) kvs = []"
    by (force simp: filter_empty_conv)
  moreover from False have "map_of (groupby_mean kvs) k = None"
    using keys_groupby_mean [of kvs] by (simp add: map_of_eq_None_iff)
  ultimately show ?thesis
    by (simp add: series_mean_Nil)
qed

lemma keys_weekday_pattern: "map fst (weekday_pattern rs) = day_names"
  by (simp add: weekday_pattern_def reindex_def comp_def)

lemma distinct_day_names: "distinct day_names"
  by (simp add: day_names_def)

lemma lookup_weekday_pattern:
  assumes "w \<in> set day_names"
  shows "map_of (weekday_pattern rs) w =
           Some (series_mean (map price_ct_kwh
                   (filter (\<lambda>r. dt_day_name (start_timestamp r) = w) rs)))"
  using assms
  by (simp add: weekday_pattern_def reindex_def map_of_map_restrict lookup_groupby_mean
                snd_filter_zip_map)

text \<open>
  Claim C6. The weekday pattern of a run always lists the seven weekdays Monday to
  Sunday, in that order, whichever weekdays occur in the data. The value in a weekday's
  slot is the mean price of the records of that weekday; for a weekday with no record the
  slot is there and its value is undefined (\<open>None\<close>), not zero.
\<close>

theorem weekday_pattern_lists_whole_week:
  assumes "load_data file = Inr d" and "script file date_range mode = Inr r"
  shows "map fst (avg_by_day r) =
           [''Monday'', ''Tuesday'', ''Wednesday'', ''Thursday'', ''Friday'', ''Saturday'',
            ''Sunday'']
         \<and> (\<forall>w \<in> set (map fst (avg_by_day r)).
               map_of (avg_by_day r) w =
                 Some (series_mean (map price_ct_kwh
                         (filter (\<lambda>x. dt_day_name (start_timestamp x) = w) (rows d)))))
         \<and> (\<forall>w \<in> set (map fst (avg_by_day r)).
               (\<forall>x \<in> set (rows d). dt_day_name (start_timestamp x) \<noteq> w) \<longrightarrow>
               map_of (avg_by_day r) w = Some None \<and> (w, None) \<in> set (avg_by_day r))"
proof -
  from assms(2) obtain d' s e where "load_data file = Inr d'" and dr: "date_range = [s, e]"
    by (rule script_Inr_cases)
  with assms have r: "avg_by_day r = weekday_pattern (rows d)"
    by (auto simp: script_Inr [OF assms(1)])
  have keys: "map fst (avg_by_day r) = day_names"
    by (simp add: r keys_weekday_pattern)
  have look: "map_of (avg_by_day r) w =
                 Some (series_mean (map price_ct_kwh
                         (filter (\<lambda>x. dt_day_name (start_timestamp x) = w) (rows d))))"
    if "w \<in> set day_names" for w
    using that by (simp add: r lookup_weekday_pattern)
  have none: "map_of (avg_by_day r) w = Some None \<and> (w, None) \<in> set (avg_by_day r)"
    if w: "w \<in> set day_names" and no: "\<forall>x \<in> set (rows d). dt_day_name (start_timestamp x) \<noteq> w"
    for w
  proof -
    from no have "filter (\<lambda>x. dt_day_name (start_timestamp x) = w) (rows d) = []"
      by (simp add: filter_empty_conv)
    with look [OF w] have "map_of (avg_by_day r) w = Some None"
      by (simp add: series_mean_Nil)
    then show ?thesis
      by (simp add: map_of_SomeD)
  qed
  from keys have "map fst (avg_by_day r) =
           [''Monday'', ''Tuesday'', ''Wednesday'', ''Thursday'', ''Friday'', ''Saturday'',
            ''Sunday'']"
    by (simp add: day_names_def)
  with keys look none show ?thesis
    by (metis (no_types, lifting))
qed

theorem weekday_pattern_lists_whole_week_witness:
  "load_data (Some gap_data) =
     Inr \<lparr> rows = map load_row gap_data, hour = None, weekday = None \<rparr>
   \<and> (\<exists>r. script (Some gap_data) [19723, 19725] Taeglich = Inr r \<and>
           map fst (avg_by_day r) =
             [''Monday'', ''Tuesday'', ''Wednesday'', ''Thursday'', ''Friday'', ''Saturday'',
              ''Sunday''] \<and>
           map_of (avg_by_day r) ''Monday'' = Some (Some 40) \<and>
           map_of (avg_by_day r) ''Tuesday'' = Some None \<and>
           map_of (avg_by_day r) ''Wednesday'' = Some (Some 20) \<and>
           (''Sunday'', None) \<in> set (avg_by_day r))"
proof -
  obtain r where r: "script (Some gap_data) [19723, 19725] Taeglich = Inr r"
    by (simp add: script_Inr [OF load_gap_data])
  note w = weekday_pattern_lists_whole_week [OF load_gap_data r]
  from w have keys: "map fst (avg_by_day r) =
             [''Monday'', ''Tuesday'', ''Wednesday'', ''Thursday'', ''Friday'', ''Saturday'',
              ''Sunday'']"
    by blast
  from w have look: "\<forall>w \<in> set (map fst (avg_by_day r)).
               map_of (avg_by_day r) w =
                 Some (series_mean (map price_ct_kwh
                         (filter (\<lambda>x. dt_day_name (start_timestamp x) = w)
                            (map load_row gap_data))))"
    unfolding frame.select_convs by blast
  have "map_of (avg_by_day r) ''Monday'' = Some (Some 40)"
    "map_of (avg_by_day r) ''Tuesday'' = Some None"
    "map_of (avg_by_day r) ''Wednesday'' = Some (Some 20)"
    "map_of (avg_by_day r) ''Sunday'' = Some None"
    using look unfolding keys
    by (simp_all add: rows_gap_data dt_day_name_values series_mean_def)
  with keys r load_gap_data show ?thesis
    by (auto dest: map_of_SomeD)
qed

section \<open>The dataset after a run\<close>

text \<open>
  Claim C7 as stated fails: the analysis tab assigns the columns \<^verbatim>\<open>hour\<close> and \<^verbatim>\<open>weekday\<close>
  to \<^verbatim>\<open>df\<close> itself, so after a run \<^verbatim>\<open>df\<close> is not the value that \<^verbatim>\<open>load_data\<close> returned.
\<close>

theorem dataset_unchanged_counterexample:
  "map_sum id df (script (Some scenario) [days_from_civil 2024 1 1, days_from_civil 2024 1 1]
                   Taeglich)
     \<noteq> load_data (Some scenario)"
  by (simp add: script_Inr [OF load_scenario] load_scenario analysis_columns_def
                assign_hour_def assign_weekday_def)

text \<open>
  Claim C7, amended. Filtering, aggregation and statistics leave the dataset as loaded.
  The pattern analysis changes it in one way only: it adds the two derived columns
  \<^verbatim>\<open>hour\<close> and \<^verbatim>\<open>weekday\<close>, which the loaded dataset does not have. The rows, their
  order and the four loaded columns of every row are, after the run, what \<^verbatim>\<open>load_data\<close>
  returned.
\<close>

theorem dataset_changed_only_by_two_added_columns:
  assumes "load_data file = Inr d" and "script file date_range mode = Inr r"
  shows "rows (df r) = rows d
         \<and> hour d = None \<and> weekday d = None
         \<and> hour (df r) = Some (map (\<lambda>x. dt_hour (start_timestamp x)) (rows d))
         \<and> weekday (df r) = Some (map (\<lambda>x. dt_day_name (start_timestamp x)) (rows d))
         \<and> df r = d \<lparr> hour := hour (df r), weekday := weekday (df r) \<rparr>"
proof -
  from assms(2) obtain d' s e where "load_data file = Inr d'" and dr: "date_range = [s, e]"
    by (rule script_Inr_cases)
  with assms have r: "df r = analysis_columns d"
    by (auto simp: script_Inr [OF assms(1)])
  from load_data_Inr [OF assms(1)] have "hour d = None" "weekday d = None"
    by auto
  then show ?thesis
    by (simp add: r analysis_columns_def assign_hour_def assign_weekday_def)
qed

theorem dataset_changed_only_by_two_added_columns_witness:
  "load_data (Some scenario) =
     Inr \<lparr> rows = map load_row scenario, hour = None, weekday = None \<rparr>
   \<and> (\<exists>r. script (Some scenario) [19723, 19723] Monatlich = Inr r \<and>
           df r = \<lparr> rows = map load_row scenario, hour = Some [0, 1],
                    weekday = Some [''Monday'', ''Monday''] \<rparr>)"
proof -
  obtain r where r: "script (Some scenario) [19723, 19723] Monatlich = Inr r"
    by (simp add: script_Inr [OF load_scenario])
  from dataset_changed_only_by_two_added_columns [OF load_scenario r]
  have "df r = \<lparr> rows = map load_row scenario,
                 hour = Some (map (\<lambda>x. dt_hour (start_timestamp x)) (map load_row scenario)),
                 weekday = Some (map (\<lambda>x. dt_day_name (start_timestamp x))
                                  (map load_row scenario)) \<rparr>"
    by simp
  also have "map (\<lambda>x. dt_hour (start_timestamp x)) (map load_row scenario) = [0, 1]"
    by (simp add: rows_scenario dt_hour_values)
  also have "map (\<lambda>x. dt_day_name (start_timestamp x)) (map load_row scenario) =
               [''Monday'', ''Monday'']"
    by (simp add: rows_scenario dt_day_name_values)
  finally show ?thesis
    using r load_scenario by simp
qed


section \<open>Buckets of the daily and monthly view\<close>

text \<open>
  Claim C1 as stated fails. The records of \<open>gap_data\<close> fall on 2024-01-01 and 2024-01-03.
  Filtered for 2024-01-01 to 2024-01-03 in daily mode, no retained record has the date
  2024-01-02, and yet \<^verbatim>\<open>filtered_df\<close> has an entry for 2024-01-02, with an undefined mean:
  the output is not the sparse series of the specification.
\<close>

theorem empty_bucket_has_no_entry_counterexample:
  "map (dt_date \<circ> start_timestamp)
       (filter_step \<lparr> rows = map load_row gap_data, hour = None, weekday = None \<rparr>
          (days_from_civil 2024 1 1) (days_from_civil 2024 1 3))
     = [days_from_civil 2024 1 1, days_from_civil 2024 1 3]
   \<and> map_sum id filtered_df
         (script (Some gap_data) [days_from_civil 2024 1 1, days_from_civil 2024 1 3] Taeglich)
       = Inr (Buckets [(midnight (days_from_civil 2024 1 1), Some 40),
                       (midnight (days_from_civil 2024 1 2), None),
                       (midnight (days_from_civil 2024 1 3), Some 20)])
   \<and> resample_mean D (map load_row gap_data) \<noteq> spec_sparse_series D (map load_row gap_data)"
proof (intro conjI)
  have "map (dt_date \<circ> start_timestamp) (map load_row gap_data) = [19723, 19725]"
    by (simp add: rows_gap_data dt_date_values)
  then show "map (dt_date \<circ> start_timestamp)
       (filter_step \<lparr> rows = map load_row gap_data, hour = None, weekday = None \<rparr>
          (days_from_civil 2024 1 1) (days_from_civil 2024 1 3))
     = [days_from_civil 2024 1 1, days_from_civil 2024 1 3]"
    by (simp only: civil_days filter_gap_data)
  show "map_sum id filtered_df
         (script (Some gap_data) [days_from_civil 2024 1 1, days_from_civil 2024 1 3] Taeglich)
       = Inr (Buckets [(midnight (days_from_civil 2024 1 1), Some 40),
                       (midnight (days_from_civil 2024 1 2), None),
                       (midnight (days_from_civil 2024 1 3), Some 20)])"
    by (simp add: script_Inr [OF load_gap_data] civil_days filter_gap_data aggregate_step_def
                  resample_D_gap_data midnight_values)
  show "resample_mean D (map load_row gap_data) \<noteq> spec_sparse_series D (map load_row gap_data)"
    by (simp add: resample_D_gap_data spec_sparse_D_gap_data)
qed

text \<open>
  Claim C1, amended. In daily and monthly mode \<^verbatim>\<open>filtered_df\<close> has one entry for every
  calendar day (month) from the day (month) of the earliest retained record to that of the
  latest one, in ascending order, whether records fall into it or not, and no entry
  outside that span. The entry of a day (month) with contributing records carries the
  mean of their prices; the entry of a day (month) of the span with no contributing
  record carries an undefined value (\<open>None\<close>). With no retained record the output is
  empty.
\<close>

theorem resample_emits_every_bucket_of_the_span:
  "aggregate_step Taeglich rs = Buckets (resample_mean D rs)
   \<and> aggregate_step Monatlich rs = Buckets (resample_mean M rs)
   \<and> map fst (resample_mean rl rs) = map (label rl) (bins rl rs)
   \<and> (rs = [] \<longrightarrow> resample_mean rl rs = [])
   \<and> (rs \<noteq> [] \<longrightarrow>
        bins rl rs = [Min ((\<lambda>r. bucket rl (start_timestamp r)) ` set rs) ..
                      Max ((\<lambda>r. bucket rl (start_timestamp r)) ` set rs)])
   \<and> (\<forall>r \<in> set rs. bucket rl (start_timestamp r) \<in> set (bins rl rs))
   \<and> (\<forall>k \<in> set (bins rl rs).
         (label rl k,
          series_mean (map price_ct_kwh (filter (\<lambda>r. bucket rl (start_timestamp r) = k) rs)))
           \<in> set (resample_mean rl rs))
   \<and> (\<forall>k \<in> set (bins rl rs).
         (\<forall>r \<in> set rs. bucket rl (start_timestamp r) \<noteq> k) \<longrightarrow>
         (label rl k, None) \<in> set (resample_mean rl rs))"
proof (intro conjI ballI impI)
  show "aggregate_step Taeglich rs = Buckets (resample_mean D rs)"
    by (simp add: aggregate_step_def)
  show "aggregate_step Monatlich rs = Buckets (resample_mean M rs)"
    by (simp add: aggregate_step_def)
  show "map fst (resample_mean rl rs) = map (label rl) (bins rl rs)"
    by (rule keys_resample_mean)
  show "resample_mean rl rs = []" if "rs = []"
    using that by (simp add: resample_mean_def bins_Nil)
  show "bins rl rs = [Min ((\<lambda>r. bucket rl (start_timestamp r)) ` set rs) ..
                      Max ((\<lambda>r. bucket rl (start_timestamp r)) ` set rs)]" if "rs \<noteq> []"
    using that by (rule bins_upto)
  show "bucket rl (start_timestamp r) \<in> set (bins rl rs)" if "r \<in> set rs" for r
    using that by (rule bucket_in_bins)
  show in_result: "(label rl k,
          series_mean (map price_ct_kwh (filter (\<lambda>r. bucket rl (start_timestamp r) = k) rs)))
           \<in> set (resample_mean rl rs)" if "k \<in> set (bins rl rs)" for k
    using that by (auto simp: resample_mean_def bin_mean_def)
  show "(label rl k, None) \<in> set (resample_mean rl rs)"
    if k: "k \<in> set (bins rl rs)" and no: "\<forall>r \<in> set rs. bucket rl (start_timestamp r) \<noteq> k" for k
  proof -
    from no have "filter (\<lambda>r. bucket rl (start_timestamp r) = k) rs = []"
      by (simp add: filter_empty_conv)
    with in_result [OF k] show ?thesis
      by (simp add: series_mean_Nil)
  qed
qed

theorem resample_emits_every_bucket_of_the_span_witness:
  "map load_row gap_data \<noteq> []
   \<and> bins D (map load_row gap_data) = [19723, 19724, 19725]
   \<and> map (bucket D \<circ> start_timestamp) (map load_row gap_data) = [19723, 19725]
   \<and> map fst (resample_mean D (map load_row gap_data)) = map (label D) [19723, 19724, 19725]
   \<and> (label D 19724, None) \<in> set (resample_mean D (map load_row gap_data))"
proof -
  have ne: "map load_row gap_data \<noteq> []"
    by (simp add: gap_data_def)
  have b: "bins D (map load_row gap_data) = [19723, 19724, 19725]"
    by (simp add: bins_def rows_gap_data dt_date_values)
  have no: "\<forall>r \<in> set (map load_row gap_data). bucket D (start_timestamp r) \<noteq> 19724"
    by (simp add: rows_gap_data dt_date_values)
  from resample_emits_every_bucket_of_the_span [of "map load_row gap_data" D]
  have "map fst (resample_mean D (map load_row gap_data)) =
          map (label D) (bins D (map load_row gap_data))"
    and "\<forall>k \<in> set (bins D (map load_row gap_data)).
           (\<forall>r \<in> set (map load_row gap_data). bucket D (start_timestamp r) \<noteq> k) \<longrightarrow>
           (label D k, None) \<in> set (resample_mean D (map load_row gap_data))"
    by blast+
  moreover have "map (bucket D \<circ> start_timestamp) (map load_row gap_data) = [19723, 19725]"
    by (simp add: rows_gap_data dt_date_values)
  ultimately show ?thesis
    using ne b no by simp
qed

text \<open>
  Claim C2 as stated fails. In monthly mode the two records of the scenario, both on
  2024-01-01, give one bucket whose key is the midnight of 2024-01-31, the last day of
  the month, not the midnight of 2024-01-01.
\<close>

theorem monthly_key_first_of_month_counterexample:
  "map_sum id (col_start_timestamp \<circ> filtered_df)
     (script (Some scenario) [days_from_civil 2024 1 1, days_from_civil 2024 1 1] Monatlich)
     = Inr [midnight (days_from_civil 2024 1 31)]
   \<and> midnight (days_from_civil 2024 1 31) \<noteq> midnight (days_from_civil 2024 1 1)"
proof
  have "map_sum id (col_start_timestamp \<circ> filtered_df)
          (script (Some scenario) [19723, 19723] Monatlich)
        = Inr (col_start_timestamp (Buckets (resample_mean M (map load_row scenario))))"
    by (simp add: script_Inr [OF load_scenario] filter_scenario aggregate_step_def)
  also have "col_start_timestamp (Buckets (resample_mean M (map load_row scenario)))
               = [midnight 19753]"
    by (simp add: resample_M_scenario midnight_values)
  finally show "map_sum id (col_start_timestamp \<circ> filtered_df)
     (script (Some scenario) [days_from_civil 2024 1 1, days_from_civil 2024 1 1] Monatlich)
     = Inr [midnight (days_from_civil 2024 1 31)]"
    by (simp only: civil_days)
  show "midnight (days_from_civil 2024 1 31) \<noteq> midnight (days_from_civil 2024 1 1)"
    by (simp add: civil_days midnight_values)
qed


section \<open>Calendar arithmetic\<close>

text \<open>
  A day of an era is written \<open>36524 * c + 1461 * q + 365 * r + doy\<close>: century \<open>c\<close> of the
  era, four-year cycle \<open>q\<close> of the century, year \<open>r\<close> of the cycle and day \<open>doy\<close> of the year.
  The year of the era is recovered from the day of the era.
\<close>

lemma yoe_recover:
  fixes c q r doy doe :: int
  assumes c: "0 \<le> c" "c \<le> 3" and q: "0 \<le> q" "q \<le> 24" and r: "0 \<le> r" "r \<le> 3"
    and doy: "0 \<le> doy" "doy \<le> 364 \<or> (doy = 365 \<and> r = 3 \<and> (q < 24 \<or> c = 3))"
    and doe: "doe = 36524 * c + 1461 * q + 365 * r + doy"
  shows "(doe - doe div 1460 + doe div 36524 - doe div 146096) div 365 = 100 * c + 4 * q + r"
proof -
  define t where "t = 24 * c + q + 365 * r + doy"
  define b :: int where "b = (if 1460 \<le> t then 1 else 0)"
  have t: "0 \<le> t" "t < 2920"
    using c q r doy by (auto simp: t_def)
  have A: "doe div 1460 = 25 * c + q + b"
  proof (rule int_div_pos_eq)
    show "doe = 1460 * (25 * c + q + b) + (t - 1460 * b)"
      by (simp add: doe t_def)
    show "0 \<le> t - 1460 * b" "t - 1460 * b < 1460"
      using t by (auto simp: b_def)
  qed
  have BC: "doe div 36524 - doe div 146096 = c"
  proof (cases "c = 3 \<and> q = 24 \<and> r = 3 \<and> doy = 365")
    case True
    then show ?thesis by (simp add: doe)
  next
    case False
    have rem: "1461 * q + 365 * r + doy < 36524"
      using False c q r doy by auto
    have "doe div 36524 = c"
    proof (rule int_div_pos_eq)
      show "doe = 36524 * c + (1461 * q + 365 * r + doy)"
        by (simp add: doe)
      show "0 \<le> 1461 * q + 365 * r + doy"
        using q r doy by simp
      show "1461 * q + 365 * r + doy < 36524"
        by (rule rem)
    qed
    moreover have "doe div 146096 = 0"
      using rem c q r doy by (simp add: doe)
    ultimately show ?thesis by simp
  qed
  have rem: "0 \<le> doy - b" "doy - b < 365"
    using c q r doy by (auto simp: b_def t_def)
  have "doe - doe div 1460 + doe div 36524 - doe div 146096
          = 365 * (100 * c + 4 * q + r) + (doy - b)"
    using A BC by (simp add: doe)
  then show ?thesis
    using rem by (rule int_div_pos_eq)
qed

lemma mp_recover:
  fixes mp doy :: int
  assumes "0 \<le> mp" "mp \<le> 11"
    and "(153 * mp + 2) div 5 \<le> doy" "doy < (153 * (mp + 1) + 2) div 5"
  shows "(5 * doy + 2) div 153 = mp"
proof -
  from assms(1,2) consider "mp = 0" | "mp = 1" | "mp = 2" | "mp = 3" | "mp = 4" | "mp = 5"
    | "mp = 6" | "mp = 7" | "mp = 8" | "mp = 9" | "mp = 10" | "mp = 11"
    by atomize_elim arith
  then show ?thesis
    using assms(3,4) by cases simp_all
qed

text \<open>
  \<open>civil_from_days\<close> on a day given by its era, century, cycle, year, month \<open>mp\<close> (counted
  from March) and day of the year.
\<close>

lemma civil_from_days_char:
  fixes era c q r doy mp :: int
  assumes c: "0 \<le> c" "c \<le> 3" and q: "0 \<le> q" "q \<le> 24" and r: "0 \<le> r" "r \<le> 3"
    and doy: "0 \<le> doy" "doy \<le> 364 \<or> (doy = 365 \<and> r = 3 \<and> (q < 24 \<or> c = 3))"
    and mp: "0 \<le> mp" "mp \<le> 11"
    and dm: "(153 * mp + 2) div 5 \<le> doy" "doy < (153 * (mp + 1) + 2) div 5"
  shows "civil_from_days (era * 146097 + (36524 * c + 1461 * q + 365 * r + doy) - 719468) =
           (400 * era + (100 * c + 4 * q + r) + (if mp < 10 then 0 else 1),
            (if mp < 10 then mp + 3 else mp - 9),
            doy - (153 * mp + 2) div 5 + 1)"
proof -
  define doe where "doe = 36524 * c + 1461 * q + 365 * r + doy"
  define yoe where "yoe = 100 * c + 4 * q + r"
  have doe_range: "0 \<le> doe" "doe < 146097"
    using c q r doy by (auto simp: doe_def)
  have 1: "(era * 146097 + doe - 719468 + 719468) div 146097 = era"
    by (rule int_div_pos_eq [where r = doe]) (use doe_range in simp_all)
  have 2: "era * 146097 + doe - 719468 + 719468 - era * 146097 = doe"
    by simp
  have 3: "(doe - doe div 1460 + doe div 36524 - doe div 146096) div 365 = yoe"
    unfolding yoe_def using c q r doy doe_def by (rule yoe_recover)
  have "yoe div 4 = 25 * c + q" "yoe div 100 = c"
    using c q r by (auto simp: yoe_def)
  then have 4: "doe - (365 * yoe + yoe div 4 - yoe div 100) = doy"
    by (simp add: doe_def yoe_def)
  have 5: "(5 * doy + 2) div 153 = mp"
    using mp dm by (rule mp_recover)
  have 6: "(if (if mp < 10 then mp + 3 else mp - 9) \<le> 2 then yoe + era * 400 + 1
            else yoe + era * 400) = 400 * era + yoe + (if mp < 10 then 0 else 1)"
    using mp by auto
  show ?thesis
    unfolding civil_from_days_def Let_def doe_def [symmetric] yoe_def [symmetric] 1 2 3 4 5 6
    by simp
qed

lemma month_of_day_char:
  fixes era c q r doy mp :: int
  assumes "0 \<le> c" "c \<le> 3" "0 \<le> q" "q \<le> 24" "0 \<le> r" "r \<le> 3"
    and "0 \<le> doy" "doy \<le> 364 \<or> (doy = 365 \<and> r = 3 \<and> (q < 24 \<or> c = 3))"
    and "0 \<le> mp" "mp \<le> 11"
    and "(153 * mp + 2) div 5 \<le> doy" "doy < (153 * (mp + 1) + 2) div 5"
  shows "month_of_day (era * 146097 + (36524 * c + 1461 * q + 365 * r + doy) - 719468) =
           12 * (400 * era + (100 * c + 4 * q + r)) + mp + 2"
  unfolding month_of_day_def civil_from_days_char [OF assms] by simp

text \<open>
  The first day of month \<open>k\<close> in the same coordinates. Counting months from March,
  \<open>k - 2\<close> is twelve times the year that begins in March plus the month \<open>mp\<close>.
\<close>

lemma yoe_split:
  fixes yoe :: int
  assumes "0 \<le> yoe" "yoe < 400"
  defines "c \<equiv> yoe div 100" and "q \<equiv> (yoe mod 100) div 4" and "r \<equiv> yoe mod 4"
  shows "yoe * 365 + yoe div 4 - yoe div 100 = 36524 * c + 1461 * q + 365 * r"
    and "yoe = 100 * c + 4 * q + r"
    and "0 \<le> c" "c \<le> 3" "0 \<le> q" "q \<le> 24" "0 \<le> r" "r \<le> 3"
proof -
  define w where "w = yoe mod 100"
  have w: "0 \<le> w" "w < 100"
    by (simp_all add: w_def)
  have yw: "yoe = 100 * c + w"
    by (simp add: w_def c_def)
  have "w mod 4 = r"
    unfolding w_def r_def by (rule mod_mod_cancel) simp
  moreover have "w = 4 * (w div 4) + w mod 4"
    by simp
  ultimately have wq: "w = 4 * q + r"
    by (simp add: q_def w_def)
  show r: "0 \<le> r" "r \<le> 3"
    by (simp_all add: r_def)
  show q: "0 \<le> q" "q \<le> 24"
    using w by (simp_all add: q_def w_def [symmetric])
  show c: "0 \<le> c" "c \<le> 3"
    using assms(1,2) by (simp_all add: c_def)
  show yoe: "yoe = 100 * c + 4 * q + r"
    using yw wq by simp
  have d4: "yoe div 4 = 25 * c + q"
    by (rule int_div_pos_eq [where r = r]) (use yoe r in simp_all)
  have "yoe * 365 + yoe div 4 - yoe div 100 = yoe * 365 + (25 * c + q) - c"
    by (simp only: d4 c_def)
  also have "\<dots> = (100 * c + 4 * q + r) * 365 + (25 * c + q) - c"
    using yoe by simp
  also have "\<dots> = 36524 * c + 1461 * q + 365 * r"
    by simp
  finally show "yoe * 365 + yoe div 4 - yoe div 100 = 36524 * c + 1461 * q + 365 * r" .
qed

lemma march_based:
  fixes k :: int
  shows "(if k mod 12 + 1 \<le> 2 then k div 12 - 1 else k div 12) = (k - 2) div 12"
    and "(if k mod 12 + 1 > 2 then k mod 12 + 1 - 3 else k mod 12 + 1 + 9) = (k - 2) mod 12"
proof -
  define y where "y = k div 12"
  define m where "m = k mod 12"
  have m: "0 \<le> m" "m < 12" and k: "k = 12 * y + m"
    by (simp_all add: y_def m_def)
  define y' where "y' = (if m \<le> 1 then y - 1 else y)"
  define mp where "mp = (if m \<le> 1 then m + 10 else m - 2)"
  have eq: "k - 2 = 12 * y' + mp" and mp: "0 \<le> mp" "mp < 12"
    using m by (auto simp: k y'_def mp_def)
  have "(k - 2) div 12 = y'"
    using eq mp by (rule int_div_pos_eq)
  moreover have "(k - 2) mod 12 = mp"
    using eq mp by (rule int_mod_pos_eq)
  ultimately show "(if k mod 12 + 1 \<le> 2 then k div 12 - 1 else k div 12) = (k - 2) div 12"
    and "(if k mod 12 + 1 > 2 then k mod 12 + 1 - 3 else k mod 12 + 1 + 9) = (k - 2) mod 12"
    unfolding y_def [symmetric] m_def [symmetric] by (auto simp: y'_def mp_def)
qed

lemma month_start_char:
  fixes k :: int
  defines "y' \<equiv> (k - 2) div 12" and "mp \<equiv> (k - 2) mod 12"
  defines "era \<equiv> y' div 400" and "yoe \<equiv> y' mod 400"
  defines "c \<equiv> yoe div 100" and "q \<equiv> (yoe mod 100) div 4" and "r \<equiv> yoe mod 4"
  shows "month_start k =
           era * 146097 + (36524 * c + 1461 * q + 365 * r + (153 * mp + 2) div 5) - 719468"
    and "k = 12 * (400 * era + (100 * c + 4 * q + r)) + mp + 2"
    and "0 \<le> c \<and> c \<le> 3 \<and> 0 \<le> q \<and> q \<le> 24 \<and> 0 \<le> r \<and> r \<le> 3 \<and> 0 \<le> mp \<and> mp \<le> 11"
proof -
  have yoe: "0 \<le> yoe" "yoe < 400"
    by (simp_all add: yoe_def)
  note s = yoe_split [OF yoe]
  have y': "y' - era * 400 = yoe"
    by (simp add: yoe_def era_def minus_div_mult_eq_mod)
  show "month_start k =
           era * 146097 + (36524 * c + 1461 * q + 365 * r + (153 * mp + 2) div 5) - 719468"
    unfolding month_start_def days_from_civil_def Let_def march_based
      y'_def [symmetric] mp_def [symmetric] era_def [symmetric] y' s(1) c_def q_def r_def
    by simp
  have "y' = 400 * era + yoe"
    by (simp add: era_def yoe_def)
  moreover have "k = 12 * y' + mp + 2"
    by (simp add: y'_def mp_def)
  ultimately show "k = 12 * (400 * era + (100 * c + 4 * q + r)) + mp + 2"
    using s(2) by (simp add: c_def q_def r_def)
  show "0 \<le> c \<and> c \<le> 3 \<and> 0 \<le> q \<and> q \<le> 24 \<and> 0 \<le> r \<and> r \<le> 3 \<and> 0 \<le> mp \<and> mp \<le> 11"
    using s(3-8) by (simp add: mp_def c_def q_def r_def)
qed

lemma month_start_cases:
  fixes k :: int
  obtains era c q r mp :: int where
    "month_start k =
       era * 146097 + (36524 * c + 1461 * q + 365 * r + (153 * mp + 2) div 5) - 719468"
    and "k = 12 * (400 * era + (100 * c + 4 * q + r)) + mp + 2"
    and "0 \<le> c" "c \<le> 3" "0 \<le> q" "q \<le> 24" "0 \<le> r" "r \<le> 3" "0 \<le> mp" "mp \<le> 11"
  using month_start_char [of k] by blast

text \<open>The first day of month \<open>k\<close> is day 1 of that month, and the day before it lies in month \<open>k - 1\<close>.\<close>

lemma month_of_day_month_start: "month_of_day (month_start k) = k"
proof -
  obtain era c q r mp :: int where
    ms: "month_start k =
       era * 146097 + (36524 * c + 1461 * q + 365 * r + (153 * mp + 2) div 5) - 719468"
    and k: "k = 12 * (400 * era + (100 * c + 4 * q + r)) + mp + 2"
    and b: "0 \<le> c" "c \<le> 3" "0 \<le> q" "q \<le> 24" "0 \<le> r" "r \<le> 3" "0 \<le> mp" "mp \<le> 11"
    by (rule month_start_cases)
  have "month_of_day (month_start k) = 12 * (400 * era + (100 * c + 4 * q + r)) + mp + 2"
    unfolding ms using b by (intro month_of_day_char) auto
  with k show ?thesis by simp
qed

lemma civil_from_days_month_start:
  "civil_from_days (month_start k) = (k div 12, k mod 12 + 1, 1)"
proof -
  obtain era c q r mp :: int where
    ms: "month_start k =
       era * 146097 + (36524 * c + 1461 * q + 365 * r + (153 * mp + 2) div 5) - 719468"
    and k: "k = 12 * (400 * era + (100 * c + 4 * q + r)) + mp + 2"
    and b: "0 \<le> c" "c \<le> 3" "0 \<le> q" "q \<le> 24" "0 \<le> r" "r \<le> 3" "0 \<le> mp" "mp \<le> 11"
    by (rule month_start_cases)
  define y where "y = 400 * era + (100 * c + 4 * q + r) + (if mp < 10 then 0 else 1)"
  define m where "m = (if mp < 10 then mp + 3 else mp - 9)"
  have "civil_from_days (month_start k) = (y, m, (153 * mp + 2) div 5 - (153 * mp + 2) div 5 + 1)"
    unfolding ms y_def m_def using b by (intro civil_from_days_char) auto
  moreover have km: "k = 12 * y + (m - 1)" "0 \<le> m - 1" "m - 1 < 12"
    using b k by (auto simp: y_def m_def)
  then have "k div 12 = y" "k mod 12 = m - 1"
    by (rule int_div_pos_eq, rule int_mod_pos_eq)
  ultimately show ?thesis by simp
qed

lemma month_of_day_before_month_start: "month_of_day (month_start k - 1) = k - 1"
proof -
  obtain era c q r mp :: int where
    ms: "month_start k =
       era * 146097 + (36524 * c + 1461 * q + 365 * r + (153 * mp + 2) div 5) - 719468"
    and k: "k = 12 * (400 * era + (100 * c + 4 * q + r)) + mp + 2"
    and b: "0 \<le> c" "c \<le> 3" "0 \<le> q" "q \<le> 24" "0 \<le> r" "r \<le> 3" "0 \<le> mp" "mp \<le> 11"
    by (rule month_start_cases)
  consider (month) "1 \<le> mp"
    | (year) "mp = 0" "1 \<le> r"
    | (cycle) "mp = 0" "r = 0" "1 \<le> q"
    | (century) "mp = 0" "r = 0" "q = 0" "1 \<le> c"
    | (era) "mp = 0" "r = 0" "q = 0" "c = 0"
    using b by atomize_elim arith
  then show ?thesis
  proof cases
    case month
    have "month_start k - 1 =
            era * 146097 + (36524 * c + 1461 * q + 365 * r + ((153 * mp + 2) div 5 - 1)) - 719468"
      by (simp add: ms)
    also have "month_of_day \<dots> = 12 * (400 * era + (100 * c + 4 * q + r)) + (mp - 1) + 2"
      using b month by (intro month_of_day_char) auto
    also have "\<dots> = k - 1"
      by (simp add: k)
    finally show ?thesis .
  next
    case year
    have "month_start k - 1 =
            era * 146097 + (36524 * c + 1461 * q + 365 * (r - 1) + 364) - 719468"
      by (simp add: ms year)
    also have "month_of_day \<dots> = 12 * (400 * era + (100 * c + 4 * q + (r - 1))) + 11 + 2"
      using b year by (intro month_of_day_char) auto
    also have "\<dots> = k - 1"
      by (simp add: k year)
    finally show ?thesis .
  next
    case cycle
    have "month_start k - 1 =
            era * 146097 + (36524 * c + 1461 * (q - 1) + 365 * 3 + 365) - 719468"
      by (simp add: ms cycle)
    also have "month_of_day \<dots> = 12 * (400 * era + (100 * c + 4 * (q - 1) + 3)) + 11 + 2"
      using b cycle by (intro month_of_day_char) auto
    also have "\<dots> = k - 1"
      by (simp add: k cycle)
    finally show ?thesis .
  next
    case century
    have "month_start k - 1 =
            era * 146097 + (36524 * (c - 1) + 1461 * 24 + 365 * 3 + 364) - 719468"
      by (simp add: ms century)
    also have "month_of_day \<dots> = 12 * (400 * era + (100 * (c - 1) + 4 * 24 + 3)) + 11 + 2"
      using b century by (intro month_of_day_char) auto
    also have "\<dots> = k - 1"
      by (simp add: k century)
    finally show ?thesis .
  next
    case era
    have "month_start k - 1 =
            (era - 1) * 146097 + (36524 * 3 + 1461 * 24 + 365 * 3 + 365) - 719468"
      by (simp add: ms era algebra_simps)
    also have "month_of_day \<dots> = 12 * (400 * (era - 1) + (100 * 3 + 4 * 24 + 3)) + 11 + 2"
      by (intro month_of_day_char) auto
    also have "\<dots> = k - 1"
      by (simp add: k era)
    finally show ?thesis .
  qed
qed

lemma month_of_day_month_end:
  "month_of_day (month_end k) = k" "month_of_day (month_end k + 1) = k + 1"
  by (simp_all add: month_end_def month_of_day_before_month_start [of "k + 1", simplified]
                    month_of_day_month_start)

subsection \<open>Keys of the monthly view\<close>

lemma dt_date_midnight: "dt_date (midnight d) = d"
  by (simp add: dt_date_def midnight_def ms_per_day_def)

lemma midnight_mod: "midnight d mod ms_per_day = 0"
  by (simp add: midnight_def)

lemma bins_between_records:
  assumes "k \<in> set (bins rl rs)"
  shows "\<exists>r1 \<in> set rs. \<exists>r2 \<in> set rs.
           bucket rl (start_timestamp r1) \<le> k \<and> k \<le> bucket rl (start_timestamp r2)"
proof -
  let ?K = "(\<lambda>r. bucket rl (start_timestamp r)) ` set rs"
  from assms have ne: "rs \<noteq> []"
    by (auto simp: bins_Nil)
  then have K: "finite ?K" "?K \<noteq> {}"
    by simp_all
  from assms ne have "Min ?K \<le> k" "k \<le> Max ?K"
    by (simp_all add: bins_upto)
  moreover from Min_in [OF K]
  obtain r1 where "Min ?K = bucket rl (start_timestamp r1)" "r1 \<in> set rs"
    by (rule imageE)
  moreover from Max_in [OF K]
  obtain r2 where "Max ?K = bucket rl (start_timestamp r2)" "r2 \<in> set rs"
    by (rule imageE)
  ultimately show ?thesis
    by auto
qed

text \<open>
  Claim C2, amended. In monthly mode the key of every entry of \<^verbatim>\<open>filtered_df\<close> is aligned to
  the end of a calendar month: it is the midnight of the last day of a month \<open>k\<close>. That day
  lies in month \<open>k\<close>, and the day after it is day 1 of month \<open>k + 1\<close>. The month \<open>k\<close> lies
  between the months of two retained records, and the month of every retained record has
  its entry.
\<close>

theorem monthly_keys_are_month_ends:
  "(\<forall>key \<in> set (col_start_timestamp (aggregate_step Monatlich rs)).
      \<exists>k. key = midnight (month_end k) \<and> key mod ms_per_day = 0 \<and>
          month_of_day (dt_date key) = k \<and>
          civil_from_days (dt_date key + 1) = ((k + 1) div 12, (k + 1) mod 12 + 1, 1) \<and>
          (\<exists>r1 \<in> set rs. \<exists>r2 \<in> set rs.
             month_of_day (dt_date (start_timestamp r1)) \<le> k \<and>
             k \<le> month_of_day (dt_date (start_timestamp r2))))
   \<and> (\<forall>r \<in> set rs.
         midnight (month_end (month_of_day (dt_date (start_timestamp r))))
           \<in> set (col_start_timestamp (aggregate_step Monatlich rs)))"
proof (intro conjI ballI)
  fix key
  assume "key \<in> set (col_start_timestamp (aggregate_step Monatlich rs))"
  then have "key \<in> set (map (label M) (bins M rs))"
    by (simp add: aggregate_step_def keys_resample_mean)
  then obtain k where k: "k \<in> set (bins M rs)" and key: "key = midnight (month_end k)"
    by auto
  from bins_between_records [OF k]
  have between: "\<exists>r1 \<in> set rs. \<exists>r2 \<in> set rs.
             month_of_day (dt_date (start_timestamp r1)) \<le> k \<and>
             k \<le> month_of_day (dt_date (start_timestamp r2))"
    by simp
  have "dt_date key = month_end k"
    by (simp add: key dt_date_midnight)
  moreover have "month_end k + 1 = month_start (k + 1)"
    by (simp add: month_end_def)
  ultimately have m1: "month_of_day (dt_date key) = k"
    and m2: "civil_from_days (dt_date key + 1) = ((k + 1) div 12, (k + 1) mod 12 + 1, 1)"
    by (simp_all add: month_of_day_month_end civil_from_days_month_start)
  have m0: "key mod ms_per_day = 0"
    by (simp add: key midnight_mod)
  show "\<exists>k. key = midnight (month_end k) \<and> key mod ms_per_day = 0 \<and>
          month_of_day (dt_date key) = k \<and>
          civil_from_days (dt_date key + 1) = ((k + 1) div 12, (k + 1) mod 12 + 1, 1) \<and>
          (\<exists>r1 \<in> set rs. \<exists>r2 \<in> set rs.
             month_of_day (dt_date (start_timestamp r1)) \<le> k \<and>
             k \<le> month_of_day (dt_date (start_timestamp r2)))"
    by (rule exI [of _ k]) (intro conjI key m0 m1 m2 between)
next
  fix r
  assume "r \<in> set rs"
  then have "bucket M (start_timestamp r) \<in> set (bins M rs)"
    by (rule bucket_in_bins)
  then have "label M (bucket M (start_timestamp r)) \<in> set (map (label M) (bins M rs))"
    by simp
  then show "midnight (month_end (month_of_day (dt_date (start_timestamp r))))
           \<in> set (col_start_timestamp (aggregate_step Monatlich rs))"
    by (simp add: aggregate_step_def keys_resample_mean)
qed

theorem monthly_keys_are_month_ends_witness:
  "col_start_timestamp (aggregate_step Monatlich (map load_row scenario)) = [1706659200000]
   \<and> 1706659200000 = midnight (month_end 24288)
   \<and> month_end 24288 = days_from_civil 2024 1 31
   \<and> map (month_of_day \<circ> dt_date \<circ> start_timestamp) (map load_row scenario) = [24288, 24288]"
proof -
  have keys: "col_start_timestamp (aggregate_step Monatlich (map load_row scenario))
                = [1706659200000]"
    by (simp add: aggregate_step_def resample_M_scenario)
  have months: "\<forall>r \<in> set (map load_row scenario).
                  month_of_day (dt_date (start_timestamp r)) = 24288"
    by (simp add: rows_scenario dt_date_values month_of_day_values)
  from monthly_keys_are_month_ends [of "map load_row scenario"]
  have "\<forall>r \<in> set (map load_row scenario).
         midnight (month_end (month_of_day (dt_date (start_timestamp r))))
           \<in> set (col_start_timestamp (aggregate_step Monatlich (map load_row scenario)))"
    by blast
  with months have "midnight (month_end 24288) = 1706659200000"
    unfolding keys by (auto simp: rows_scenario)
  moreover
  have "map (month_of_day \<circ> dt_date \<circ> start_timestamp) (map load_row scenario) = [24288, 24288]"
    by (simp add: rows_scenario dt_date_values month_of_day_values)
  ultimately show ?thesis
    using keys by (simp add: month_end_values civil_days)
qed

end
